theory Spec2Isabelle
  imports Main "HOL-Library.AList"
begin

section \<open>The pre-commit hook \<open>.githooks/pre-commit.py\<close>\<close>

text \<open>
  The hook walks the working directory, and for every file whose name ends with one of
  the strings of \<open>EXCEL_FILE_EXTENSIONS\<close> it writes the VBA modules of the workbook
  below \<open>src.vba\<close> and seven text reports below \<open>excel_reports\<close>.

  Python's \<open>str\<close> is modelled by \<open>string\<close>, read as a sequence of code points below 256.
  The two libraries (oletools, openpyxl) are parameters of the model: what they return for
  the bytes of a file is a record of the attributes the hook reads. Console output
  (\<open>print\<close>) is not part of the model.
\<close>

subsection \<open>Python's string operations\<close>

definition startswith :: "string \<Rightarrow> string \<Rightarrow> bool" where
  \<comment> \<open>\<open>s.startswith(p)\<close>\<close>
  "startswith s p = (take (length p) s = p)"

definition endswith :: "string \<Rightarrow> string \<Rightarrow> bool" where
  \<comment> \<open>\<open>s.endswith(e)\<close> for one string \<open>e\<close>\<close>
  "endswith s e = (length e \<le> length s \<and> drop (length s - length e) s = e)"

definition endswith_any :: "string \<Rightarrow> string list \<Rightarrow> bool" where
  \<comment> \<open>\<open>s.endswith(t)\<close> for a tuple \<open>t\<close>: some element of the tuple is a suffix\<close>
  "endswith_any s es = list_ex (endswith s) es"

fun contains :: "string \<Rightarrow> string \<Rightarrow> bool" where
  \<comment> \<open>\<open>sub in s\<close>\<close>
  "contains sub [] = (sub = [])"
| "contains sub (c # cs) = (startswith (c # cs) sub \<or> contains sub cs)"

definition is_line_boundary :: "char \<Rightarrow> bool" where
  \<comment> \<open>the line boundaries of \<open>str.splitlines\<close> below code point 256:
      LF, VT, FF, CR, FS, GS, RS and NEL\<close>
  "is_line_boundary c =
     (c \<in> set [CHR 0x0A, CHR 0x0B, CHR 0x0C, CHR 0x0D, CHR 0x1C, CHR 0x1D, CHR 0x1E, CHR 0x85])"

fun splitlines_from :: "string \<Rightarrow> string \<Rightarrow> string list" where
  \<comment> \<open>\<open>splitlines_from cur s\<close>: the lines of \<open>s\<close>, the first one continuing \<open>cur\<close>.
      CR LF is one boundary; a boundary at the very end opens no further line.\<close>
  "splitlines_from cur [] = (if cur = [] then [] else [cur])"
| "splitlines_from cur [c] =
     (if is_line_boundary c then [cur] else [cur @ [c]])"
| "splitlines_from cur (c # d # cs) =
     (if c = CHR 0x0D \<and> d = CHR 0x0A then cur # splitlines_from [] cs
      else if is_line_boundary c then cur # splitlines_from [] (d # cs)
      else splitlines_from (cur @ [c]) (d # cs))"

definition splitlines :: "string \<Rightarrow> string list" where
  \<comment> \<open>\<open>s.splitlines()\<close>\<close>
  "splitlines s = splitlines_from [] s"

fun join :: "string \<Rightarrow> string list \<Rightarrow> string" where
  \<comment> \<open>\<open>sep.join(xs)\<close>\<close>
  "join sep [] = []"
| "join sep [x] = x"
| "join sep (x # y # ys) = x @ sep @ join sep (y # ys)"

definition digit :: "nat \<Rightarrow> char" where
  "digit n = ''0123456789'' ! (n mod 10)"

fun str_nat :: "nat \<Rightarrow> string" where
  "str_nat n = (if n < 10 then [digit n] else str_nat (n div 10) @ [digit n])"

declare str_nat.simps [simp del]

definition hex_digit :: "int \<Rightarrow> char" where
  "hex_digit n = ''0123456789abcdef'' ! nat (n mod 16)"

function hex_int :: "int \<Rightarrow> string" where
  \<comment> \<open>the digits of \<open>hex(n)\<close> for \<open>n\<close> from 0 on, without the \<open>0x\<close>\<close>
  "hex_int n = (if n < 16 then [hex_digit n] else hex_int (n div 16) @ [hex_digit n])"
  by pat_completeness auto
termination
  by (relation "measure nat") auto

declare hex_int.simps [simp del]

definition str_int :: "int \<Rightarrow> string" where
  \<comment> \<open>\<open>str(i)\<close> for a Python int\<close>
  "str_int i = (if i < 0 then CHR ''-'' # str_nat (nat (- i)) else str_nat (nat i))"

definition apostrophe :: char where
  "apostrophe = CHR 0x27"

definition newline :: string where
  "newline = [CHR 0x0A]"

definition quoted :: "string \<Rightarrow> string" where
  \<comment> \<open>the text \<open>'{s}'\<close> of an f-string\<close>
  "quoted s = apostrophe # s @ [apostrophe]"

subsection \<open>\<open>os.path\<close>\<close>

definition path_join :: "string \<Rightarrow> string \<Rightarrow> string" where
  \<comment> \<open>\<open>os.path.join(a, b)\<close> of posixpath\<close>
  "path_join a b =
     (if startswith b ''/'' then b
      else if a = [] \<or> endswith a ''/'' then a @ b
      else a @ ''/'' @ b)"

fun rfind :: "char \<Rightarrow> string \<Rightarrow> nat option" where
  \<comment> \<open>\<open>s.rfind(c)\<close>, with None for Python's -1\<close>
  "rfind c [] = None"
| "rfind c (x # xs) =
     (case rfind c xs of
        Some i \<Rightarrow> Some (Suc i)
      | None \<Rightarrow> (if x = c then Some 0 else None))"

definition splitext :: "string \<Rightarrow> string \<times> string" where
  \<comment> \<open>\<open>os.path.splitext(p)\<close> of posixpath: the extension starts at the last dot
      after the last separator, unless only dots stand between the two\<close>
  "splitext p =
     (let filenameIndex = (case rfind (CHR ''/'') p of None \<Rightarrow> 0 | Some i \<Rightarrow> Suc i)
      in case rfind (CHR ''.'') p of
           None \<Rightarrow> (p, [])
         | Some dotIndex \<Rightarrow>
             (if filenameIndex \<le> dotIndex
                 \<and> list_ex (\<lambda>c. c \<noteq> CHR ''.'') (drop filenameIndex (take dotIndex p))
              then (take dotIndex p, drop dotIndex p)
              else (p, [])))"

subsection \<open>Module constants\<close>

definition EXCEL_FILE_EXTENSIONS :: "string list" where
  "EXCEL_FILE_EXTENSIONS = [''xlsb'', ''xls'', ''xlsm'', ''xla'', ''xlt'', ''xlam'', ''xlsx'']"

definition KEEP_NAME :: bool where
  "KEEP_NAME = False"

subsection \<open>Python values as the reports see them\<close>

text \<open>
  A cell value of openpyxl is \<open>None\<close>, a \<open>str\<close>, an \<open>int\<close>, a \<open>float\<close>, a \<open>bool\<close> or some
  other object. Of a float, and of an object whose class gives it a text of its own (a
  date, a time), the hook uses only the text \<open>str\<close> gives and whether the value is true
  in a condition, so these two are what the model keeps of them. An object of a class
  that defines neither \<open>__str__\<close> nor \<open>__repr__\<close> (openpyxl's \<open>ArrayFormula\<close>) is
  formatted by Python's default, \<open><module.Class object at 0x...>\<close>, which holds the
  address the running process gave the object: the model keeps the class and the
  address.
\<close>

datatype pyvalue =
    VNone
  | VStr string
  | VInt int
  | VFloat (float_str: string) (float_nonzero: bool)
  | VBool bool
  | VOther (object_str: string) (object_truthy: bool)
  | VObject (class_name: string) (address: int)

fun isinstance_str :: "pyvalue \<Rightarrow> bool" where
  "isinstance_str (VStr _) = True"
| "isinstance_str _ = False"

fun isinstance_int_float :: "pyvalue \<Rightarrow> bool" where
  \<comment> \<open>\<open>isinstance(v, (int, float))\<close>; \<open>bool\<close> is a subclass of \<open>int\<close>\<close>
  "isinstance_int_float (VInt _) = True"
| "isinstance_int_float (VFloat _ _) = True"
| "isinstance_int_float (VBool _) = True"
| "isinstance_int_float _ = False"

fun isinstance_bool :: "pyvalue \<Rightarrow> bool" where
  "isinstance_bool (VBool _) = True"
| "isinstance_bool _ = False"

fun truthy :: "pyvalue \<Rightarrow> bool" where
  \<comment> \<open>the value in a condition: \<open>if v:\<close>\<close>
  "truthy VNone = False"
| "truthy (VStr s) = (s \<noteq> [])"
| "truthy (VInt i) = (i \<noteq> 0)"
| "truthy (VFloat _ nz) = nz"
| "truthy (VBool b) = b"
| "truthy (VOther _ t) = t"
| "truthy (VObject _ _) = True"

fun str_value :: "pyvalue \<Rightarrow> string" where
  \<comment> \<open>\<open>f"{v}"\<close>\<close>
  "str_value VNone = ''None''"
| "str_value (VStr s) = s"
| "str_value (VInt i) = str_int i"
| "str_value (VFloat s _) = s"
| "str_value (VBool b) = (if b then ''True'' else ''False'')"
| "str_value (VOther s _) = s"
| "str_value (VObject c a) = ''<'' @ c @ '' object at 0x'' @ hex_int a @ ''>''"

subsection \<open>What oletools returns\<close>

text \<open>
  \<open>VBA_Parser(path)\<close> opens the file or raises; of the parser the hook calls
  \<open>detect_vba_macros()\<close> and \<open>extract_all_macros()\<close>, which yields tuples
  (container, stream path, module file name, source text).
\<close>

record vba_parser =
  detect_vba_macros :: bool
  extract_all_macros :: "(string \<times> string \<times> string \<times> string) list"

subsection \<open>What openpyxl returns\<close>

record font =
  font_name :: pyvalue
  font_size :: pyvalue
  bold :: pyvalue
  italic :: pyvalue
  font_color :: "pyvalue option"  \<comment> \<open>\<open>font.color\<close> is None or a colour, of which \<open>rgb\<close> is read\<close>

record cell =
  coordinate :: string
  cell_value :: pyvalue  \<comment> \<open>\<open>cell.value\<close>\<close>
  cell_font :: font
  fill_start_color :: "pyvalue option"  \<comment> \<open>\<open>cell.fill.start_color\<close>: None or a colour's \<open>rgb\<close>\<close>
  alignment_horizontal :: pyvalue
  number_format :: pyvalue
  hyperlink :: "pyvalue option"  \<comment> \<open>\<open>cell.hyperlink\<close>: None or a link, of which \<open>target\<close> is read\<close>

record data_validation =
  sqref :: string  \<comment> \<open>the text of \<open>dv.sqref\<close>\<close>
  formula1 :: pyvalue
  dv_type :: pyvalue  \<comment> \<open>\<open>dv.type\<close>\<close>
  operator :: pyvalue

record sheet =
  iter_rows :: "cell list list"
  conditional_formatting :: "(string \<times> string) list"
    \<comment> \<open>each range object as text, with the text of the rules registered for it\<close>
  merged_cells_ranges :: "string list"  \<comment> \<open>\<open>sheet.merged_cells.ranges\<close>, each as text\<close>
  data_validations :: "data_validation list"  \<comment> \<open>\<open>sheet.data_validations.dataValidation\<close>\<close>

record workbook =
  defined_names :: "(string \<times> pyvalue) list"  \<comment> \<open>each name with its \<open>attr_text\<close>\<close>
  worksheets :: "(string \<times> sheet) list"  \<comment> \<open>each sheet under its title, in workbook order\<close>

definition sheetnames :: "workbook \<Rightarrow> string list" where
  "sheetnames wb = map fst (worksheets wb)"

definition getitem :: "workbook \<Rightarrow> string \<Rightarrow> sheet option" where
  \<comment> \<open>\<open>wb[name]\<close>: the first sheet with that title; None stands for KeyError\<close>
  "getitem wb name = map_of (worksheets wb) name"

subsection \<open>Errors, the libraries and the working directory\<close>

datatype error =
    FileExistsError
  | FileNotFoundError
  | NotADirectoryError
  | IsADirectoryError
  | KeyError string
  | LibraryError string  \<comment> \<open>whatever oletools or openpyxl raises on a file\<close>
  | PathNotModelled string

record libraries =
  VBA_Parser :: "string \<Rightarrow> error + vba_parser"
    \<comment> \<open>from the bytes of a file\<close>
  load_workbook :: "string \<Rightarrow> bool \<Rightarrow> error + workbook"
    \<comment> \<open>from the bytes of a file and the flag \<open>data_only\<close>\<close>

text \<open>
  The working directory is a tree of directories and regular files. A directory lists its
  entries in the order \<open>os.scandir\<close> gives them; an entry created later goes to the end.
\<close>

datatype node = File string | Dir "(string \<times> node) list"

type_synonym directory = "(string \<times> node) list"

datatype outcome = Ok directory | Raised error directory
  \<comment> \<open>a step returns, or raises and leaves the directory as it was at that moment\<close>

fun and_then :: "outcome \<Rightarrow> (directory \<Rightarrow> outcome) \<Rightarrow> outcome" where
  "and_then (Ok fs) f = f fs"
| "and_then (Raised e fs) f = Raised e fs"

definition path_exists :: "string \<Rightarrow> directory \<Rightarrow> bool" where
  \<comment> \<open>\<open>os.path.exists(name)\<close> for a name in the working directory\<close>
  "path_exists name fs = (map_of fs name \<noteq> None)"

definition rmtree :: "string \<Rightarrow> directory \<Rightarrow> outcome" where
  \<comment> \<open>\<open>shutil.rmtree(name)\<close>: removes a directory with all below it; raises on a
      regular file and on a missing name\<close>
  "rmtree name fs =
     (case map_of fs name of
        Some (Dir _) \<Rightarrow> Ok (AList.delete name fs)
      | Some (File _) \<Rightarrow> Raised NotADirectoryError fs
      | None \<Rightarrow> Raised FileNotFoundError fs)"

definition makedirs :: "string \<Rightarrow> directory \<Rightarrow> outcome" where
  \<comment> \<open>\<open>os.makedirs(name, exist_ok=True)\<close> for a name in the working directory\<close>
  "makedirs name fs =
     (case map_of fs name of
        Some (Dir _) \<Rightarrow> Ok fs
      | Some (File _) \<Rightarrow> Raised FileExistsError fs
      | None \<Rightarrow> Ok (AList.update name (Dir []) fs))"

definition plain_name :: "string \<Rightarrow> bool" where
  \<comment> \<open>a single path component\<close>
  "plain_name n = (n \<noteq> [] \<and> n \<noteq> ''.'' \<and> n \<noteq> ''..'' \<and> \<not> List.member n (CHR ''/''))"

definition write_file :: "string \<Rightarrow> string \<Rightarrow> string \<Rightarrow> directory \<Rightarrow> outcome" where
  \<comment> \<open>\<open>with open(os.path.join(dir, name), "w") as f: f.write(text)\<close>: the file is
      created or truncated, then written. A \<open>name\<close> with a separator in it is a path
      through sub-directories, which the model does not resolve.\<close>
  "write_file dir name text fs =
     (if \<not> plain_name name then Raised (PathNotModelled name) fs
      else case map_of fs dir of
        None \<Rightarrow> Raised FileNotFoundError fs
      | Some (File _) \<Rightarrow> Raised NotADirectoryError fs
      | Some (Dir entries) \<Rightarrow>
          (case map_of entries name of
             Some (Dir _) \<Rightarrow> Raised IsADirectoryError fs
           | _ \<Rightarrow> Ok (AList.update dir (Dir (AList.update name (File text) entries)) fs)))"

subsection \<open>\<open>parse_vba\<close>\<close>

definition content_filtered :: "string \<Rightarrow> string list" where
  \<comment> \<open>lines 19 to 24: the lines of a module that are kept\<close>
  "content_filtered content =
     filter (\<lambda>line. \<not> startswith line ''Attribute'' \<or> (contains ''VB_Name'' line \<and> KEEP_NAME))
       (splitlines content)"

fun write_modules ::
  "string \<Rightarrow> (string \<times> string \<times> string \<times> string) list \<Rightarrow> directory \<Rightarrow> outcome" where
  \<comment> \<open>the loop of lines 18 to 34\<close>
  "write_modules file_prefix [] fs = Ok fs"
| "write_modules file_prefix ((container, stream, filename, content) # rest) fs =
     (if content_filtered content \<noteq> []
      then and_then
             (and_then (makedirs ''src.vba'' fs)
                (write_file ''src.vba'' (file_prefix @ ''_'' @ filename)
                   (join newline (content_filtered content))))
             (write_modules file_prefix rest)
      else write_modules file_prefix rest fs)"

definition parse_vba :: "libraries \<Rightarrow> string \<Rightarrow> string \<Rightarrow> directory \<Rightarrow> outcome" where
  \<comment> \<open>\<open>parse_vba(workbook_path, file_prefix)\<close>, given the bytes of the file at the path\<close>
  "parse_vba lib workbook file_prefix fs =
     (case VBA_Parser lib workbook of
        Inl e \<Rightarrow> Raised e fs
      | Inr vba_parser \<Rightarrow>
          (let vba_modules =
                 (if detect_vba_macros vba_parser then extract_all_macros vba_parser else [])
           in write_modules file_prefix vba_modules fs))"

subsection \<open>\<open>generate_text_reports\<close>\<close>

type_synonym reports = "(string \<times> string list) list"
  \<comment> \<open>the dict \<open>reports\<close>: file name to lines, in insertion order\<close>

definition extend :: "reports \<Rightarrow> string \<Rightarrow> string list \<Rightarrow> reports" where
  \<comment> \<open>\<open>reports[key].extend(section)\<close>\<close>
  "extend reports key section = AList.map_entry key (\<lambda>content. content @ section) reports"

definition sheet_header :: "string \<Rightarrow> string" where
  \<comment> \<open>\<open>f"Sheet: {sheet_name}\n" + "-" * 40\<close>\<close>
  "sheet_header sheet_name = ''Sheet: '' @ sheet_name @ newline @ replicate 40 (CHR ''-'')"

definition cell_type :: "pyvalue \<Rightarrow> string" where
  \<comment> \<open>lines 72 to 79\<close>
  "cell_type v =
     (if isinstance_str v then ''Text''
      else if isinstance_int_float v then ''Number''
      else if isinstance_bool v then ''Boolean''
      else ''Other'')"

definition formulas_line :: "cell \<Rightarrow> string" where
  \<comment> \<open>lines 82 to 84\<close>
  "formulas_line c =
     ''Cell '' @ coordinate c @ '': Value='' @ quoted (str_value (cell_value c))
       @ '', Type='' @ quoted (cell_type (cell_value c))"

definition formulas_cell :: "cell \<Rightarrow> string list" where
  \<comment> \<open>the body of the loop of lines 68 to 84: what one cell appends\<close>
  "formulas_cell c = (if cell_value c \<noteq> VNone then [formulas_line c] else [])"

definition formulas_section :: "string \<Rightarrow> sheet \<Rightarrow> string list" where
  "formulas_section sheet_name sh =
     sheet_header sheet_name # concat (map (\<lambda>row. concat (map formulas_cell row)) (iter_rows sh))"

definition formatting_line :: "cell \<Rightarrow> string" where
  \<comment> \<open>lines 92 to 98\<close>
  "formatting_line c =
     ''Cell '' @ coordinate c @ '': Font='' @ quoted (str_value (font_name (cell_font c)))
       @ '', Size='' @ str_value (font_size (cell_font c))
       @ '', Bold='' @ str_value (bold (cell_font c))
       @ '', Italic='' @ str_value (italic (cell_font c))
       @ '', Font Color=''
       @ (case font_color (cell_font c) of Some rgb \<Rightarrow> str_value rgb | None \<Rightarrow> ''None'')
       @ '', Fill Color=''
       @ (case fill_start_color c of Some rgb \<Rightarrow> str_value rgb | None \<Rightarrow> ''None'')
       @ '', Alignment='' @ str_value (alignment_horizontal c)
       @ '', Number Format='' @ quoted (str_value (number_format c))"

definition formatting_cell :: "cell \<Rightarrow> string list" where
  \<comment> \<open>the body of the loop of lines 89 to 98\<close>
  "formatting_cell c = (if truthy (cell_value c) then [formatting_line c] else [])"

definition formatting_section :: "string \<Rightarrow> sheet \<Rightarrow> string list" where
  "formatting_section sheet_name sh =
     sheet_header sheet_name # concat (map (\<lambda>row. concat (map formatting_cell row)) (iter_rows sh))"

definition conditional_section :: "string \<Rightarrow> sheet \<Rightarrow> string list" where
  \<comment> \<open>lines 102 to 107\<close>
  "conditional_section sheet_name sh =
     sheet_header sheet_name #
       (if conditional_formatting sh \<noteq> []
        then map (\<lambda>(rule, rules). ''Rule: '' @ rule @ '', Applied to: '' @ rules)
               (conditional_formatting sh)
        else [])"

definition merged_section :: "string \<Rightarrow> sheet \<Rightarrow> string list" where
  \<comment> \<open>lines 111 to 113\<close>
  "merged_section sheet_name sh =
     sheet_header sheet_name #
       map (\<lambda>merged_range. ''Merged Range: '' @ merged_range) (merged_cells_ranges sh)"

definition validation_line :: "data_validation \<Rightarrow> string" where
  \<comment> \<open>line 121\<close>
  "validation_line dv =
     ''Range: '' @ sqref dv @ '', Formula: '' @ str_value (formula1 dv)
       @ '', Allow Type: '' @ str_value (dv_type dv)
       @ '', Criteria: '' @ str_value (operator dv)"

definition validations_section :: "string \<Rightarrow> sheet \<Rightarrow> string list" where
  \<comment> \<open>lines 117 to 122\<close>
  "validations_section sheet_name sh =
     sheet_header sheet_name #
       (if data_validations sh \<noteq> [] then map validation_line (data_validations sh) else [])"

definition hyperlinks_cell :: "cell \<Rightarrow> string list" where
  \<comment> \<open>the body of the loop of lines 127 to 132\<close>
  "hyperlinks_cell c =
     (case hyperlink c of
        Some target \<Rightarrow>
          [''Cell '' @ coordinate c @ '': Hyperlink='' @ quoted (str_value target)]
      | None \<Rightarrow> [])"

definition hyperlinks_section :: "string \<Rightarrow> sheet \<Rightarrow> string list" where
  "hyperlinks_section sheet_name sh =
     sheet_header sheet_name # concat (map (\<lambda>row. concat (map hyperlinks_cell row)) (iter_rows sh))"

definition named_ranges_section :: "workbook \<Rightarrow> string list" where
  \<comment> \<open>lines 56 to 59\<close>
  "named_ranges_section wb =
     (''Workbook Named Ranges'' @ newline @ replicate 40 (CHR ''-'')) #
       map (\<lambda>(name, destination). ''Name: '' @ name @ '', Refers To: '' @ str_value destination)
         (defined_names wb)"

definition initial_reports :: "string \<Rightarrow> reports" where
  \<comment> \<open>lines 45 to 53\<close>
  "initial_reports file_prefix =
     [(file_prefix @ ''_formulas_and_values.txt'', []),
      (file_prefix @ ''_formatting.txt'', []),
      (file_prefix @ ''_conditional_formatting.txt'', []),
      (file_prefix @ ''_merged_cells.txt'', []),
      (file_prefix @ ''_data_validations.txt'', []),
      (file_prefix @ ''_hyperlinks.txt'', []),
      (file_prefix @ ''_named_ranges.txt'', [])]"

definition sheet_reports :: "string \<Rightarrow> string \<Rightarrow> sheet \<Rightarrow> sheet \<Rightarrow> reports \<Rightarrow> reports" where
  \<comment> \<open>lines 66 to 133 for one sheet; \<open>eval_sheet\<close> is bound in line 64 and not read\<close>
  "sheet_reports file_prefix sheet_name sh eval_sheet reports =
     (let r1 = extend reports (file_prefix @ ''_formulas_and_values.txt'')
                 (formulas_section sheet_name sh);
          r2 = extend r1 (file_prefix @ ''_formatting.txt'') (formatting_section sheet_name sh);
          r3 = extend r2 (file_prefix @ ''_conditional_formatting.txt'')
                 (conditional_section sheet_name sh);
          r4 = extend r3 (file_prefix @ ''_merged_cells.txt'') (merged_section sheet_name sh);
          r5 = extend r4 (file_prefix @ ''_data_validations.txt'')
                 (validations_section sheet_name sh)
      in extend r5 (file_prefix @ ''_hyperlinks.txt'') (hyperlinks_section sheet_name sh))"

fun sheets_loop ::
  "workbook \<Rightarrow> workbook \<Rightarrow> string \<Rightarrow> string list \<Rightarrow> reports \<Rightarrow> error + reports" where
  \<comment> \<open>the loop of lines 62 to 133 over \<open>workbook.sheetnames\<close>\<close>
  "sheets_loop wb eval_wb file_prefix [] reports = Inr reports"
| "sheets_loop wb eval_wb file_prefix (sheet_name # rest) reports =
     (case getitem wb sheet_name of
        None \<Rightarrow> Inl (KeyError sheet_name)
      | Some sh \<Rightarrow>
          (case getitem eval_wb sheet_name of
             None \<Rightarrow> Inl (KeyError sheet_name)
           | Some eval_sheet \<Rightarrow>
               sheets_loop wb eval_wb file_prefix rest
                 (sheet_reports file_prefix sheet_name sh eval_sheet reports)))"

definition build_reports :: "workbook \<Rightarrow> workbook \<Rightarrow> string \<Rightarrow> error + reports" where
  \<comment> \<open>lines 45 to 133: the dict as it stands before the files are written\<close>
  "build_reports wb eval_wb file_prefix =
     sheets_loop wb eval_wb file_prefix (sheetnames wb)
       (extend (initial_reports file_prefix) (file_prefix @ ''_named_ranges.txt'')
          (named_ranges_section wb))"

fun save_reports :: "reports \<Rightarrow> directory \<Rightarrow> outcome" where
  \<comment> \<open>the loop of lines 136 to 138\<close>
  "save_reports [] fs = Ok fs"
| "save_reports ((filename, content) # rest) fs =
     and_then (write_file ''excel_reports'' filename (join newline content @ newline) fs)
       (save_reports rest)"

definition generate_text_reports :: "libraries \<Rightarrow> string \<Rightarrow> string \<Rightarrow> directory \<Rightarrow> outcome" where
  \<comment> \<open>\<open>generate_text_reports(workbook_path, file_prefix)\<close>, given the bytes of the file
      at the path\<close>
  "generate_text_reports lib workbook_file file_prefix fs =
     and_then (makedirs ''excel_reports'' fs) (\<lambda>fs1.
       case load_workbook lib workbook_file False of
         Inl e \<Rightarrow> Raised e fs1
       | Inr wb \<Rightarrow>
           (case load_workbook lib workbook_file True of
              Inl e \<Rightarrow> Raised e fs1
            | Inr eval_wb \<Rightarrow>
                (case build_reports wb eval_wb file_prefix of
                   Inl e \<Rightarrow> Raised e fs1
                 | Inr reports \<Rightarrow> save_reports reports fs1)))"

subsection \<open>The orchestrator\<close>

fun walk :: "string \<Rightarrow> node \<Rightarrow> (string \<times> string \<times> string) list" where
  \<comment> \<open>\<open>os.walk(root)\<close>, flattened to the order in which the loop of lines 151 and 152
      meets the files: (root, file name, bytes of the file). A directory gives its own
      files first and then, in order, what its sub-directories give.\<close>
  "walk root (File bytes) = []"
| "walk root (Dir entries) =
     concat (map (\<lambda>e. case snd e of File bytes \<Rightarrow> [(root, fst e, bytes)] | Dir _ \<Rightarrow> []) entries)
     @ concat (map (\<lambda>e. walk (path_join root (fst e)) (snd e)) entries)"

definition process_file :: "libraries \<Rightarrow> string \<times> string \<times> string \<Rightarrow> directory \<Rightarrow> outcome" where
  \<comment> \<open>lines 153 to 164: the body of the loop for one file\<close>
  "process_file lib entry fs =
     (case entry of (root, file, bytes) \<Rightarrow>
        if endswith_any file EXCEL_FILE_EXTENSIONS
        then (let file_prefix = fst (splitext file)
              in and_then (parse_vba lib bytes file_prefix fs)
                   (generate_text_reports lib bytes file_prefix))
        else Ok fs)"

fun process_files :: "libraries \<Rightarrow> (string \<times> string \<times> string) list \<Rightarrow> directory \<Rightarrow> outcome" where
  "process_files lib [] fs = Ok fs"
| "process_files lib (entry # rest) fs =
     and_then (process_file lib entry fs) (process_files lib rest)"

definition remove_old :: "string \<Rightarrow> directory \<Rightarrow> outcome" where
  \<comment> \<open>\<open>if os.path.exists(name): shutil.rmtree(name)\<close>\<close>
  "remove_old name fs = (if path_exists name fs then rmtree name fs else Ok fs)"

definition main :: "libraries \<Rightarrow> directory \<Rightarrow> outcome" where
  \<comment> \<open>lines 143 to 164. The walk starts after the two removals; the loop writes below
      \<open>src.vba\<close> and \<open>excel_reports\<close> only, which the walk does not list, so the
      directories it scans later are as they were when it started.\<close>
  "main lib fs =
     and_then (and_then (remove_old ''src.vba'' fs) (remove_old ''excel_reports''))
       (\<lambda>fs1. process_files lib (walk ''.'' (Dir fs1)) fs1)"

subsection \<open>Predicates and examples used in the statements\<close>

definition isfile :: "string \<Rightarrow> directory \<Rightarrow> bool" where
  \<comment> \<open>\<open>os.path.isfile(name)\<close> for a name in the working directory\<close>
  "isfile name fs = (case map_of fs name of Some (File _) \<Rightarrow> True | _ \<Rightarrow> False)"

definition isdir :: "string \<Rightarrow> directory \<Rightarrow> bool" where
  \<comment> \<open>\<open>os.path.isdir(name)\<close> for a name in the working directory\<close>
  "isdir name fs = (case map_of fs name of Some (Dir _) \<Rightarrow> True | _ \<Rightarrow> False)"

definition read_file :: "string \<Rightarrow> string \<Rightarrow> directory \<Rightarrow> string option" where
  \<comment> \<open>the text of the regular file \<open>dir/name\<close>, if there is one\<close>
  "read_file dir name fs =
     (case map_of fs dir of
        Some (Dir entries) \<Rightarrow>
          (case map_of entries name of Some (File text) \<Rightarrow> Some text | _ \<Rightarrow> None)
      | _ \<Rightarrow> None)"

definition not_excel :: "string \<times> string \<times> string \<Rightarrow> bool" where
  \<comment> \<open>a file the filter of line 153 rejects\<close>
  "not_excel entry = (case entry of (root, file, bytes) \<Rightarrow>
     \<not> endswith_any file EXCEL_FILE_EXTENSIONS)"

definition empty_after_filtering :: "string \<times> string \<times> string \<times> string \<Rightarrow> bool" where
  \<comment> \<open>a module of which line 27 finds nothing left\<close>
  "empty_after_filtering m = (case m of (container, stream, filename, content) \<Rightarrow>
     content_filtered content = [])"

definition formulas_and_values_of :: "workbook \<Rightarrow> string list" where
  \<comment> \<open>the lines of the formulas-and-values report as one view of the workbook gives
      them: for each sheet name, in order, the header and the lines of the cells of the
      sheet the view has under that name\<close>
  "formulas_and_values_of wb =
     concat (map (\<lambda>sheet_name. case getitem wb sheet_name of
                    Some sh \<Rightarrow> formulas_section sheet_name sh
                  | None \<Rightarrow> [])
       (sheetnames wb))"

fun returned :: "outcome \<Rightarrow> bool" where
  "returned (Ok fs) = True"
| "returned (Raised e fs) = False"

fun directory_of :: "outcome \<Rightarrow> directory" where
  \<comment> \<open>the working directory as a step leaves it\<close>
  "directory_of (Ok fs) = fs"
| "directory_of (Raised e fs) = fs"
















definition formatting_of :: "workbook \<Rightarrow> string list" where
  \<comment> \<open>the lines of the formatting report as one view of the workbook gives them\<close>
  "formatting_of wb =
     concat (map (\<lambda>sheet_name. case getitem wb sheet_name of
                    Some sh \<Rightarrow> formatting_section sheet_name sh
                  | None \<Rightarrow> [])
       (sheetnames wb))"

definition plain_font :: font where
  "plain_font = \<lparr>font_name = VStr ''Calibri'', font_size = VFloat ''11.0'' True,
     bold = VBool False, italic = VBool False, font_color = None\<rparr>"

definition plain_cell :: "string \<Rightarrow> pyvalue \<Rightarrow> cell" where
  \<comment> \<open>a cell with the default style and no hyperlink\<close>
  "plain_cell coord v = \<lparr>coordinate = coord, cell_value = v, cell_font = plain_font,
     fill_start_color = Some (VStr ''00000000''), alignment_horizontal = VNone,
     number_format = VStr ''General'', hyperlink = None\<rparr>"

definition sheet_of_rows :: "cell list list \<Rightarrow> sheet" where
  \<comment> \<open>a sheet with these rows and nothing else\<close>
  "sheet_of_rows rows = \<lparr>iter_rows = rows, conditional_formatting = [],
     merged_cells_ranges = [], data_validations = []\<rparr>"

definition one_cell_workbook :: "string \<Rightarrow> pyvalue \<Rightarrow> workbook" where
  \<comment> \<open>a workbook with the single sheet \<open>Sheet1\<close> and one cell in it\<close>
  "one_cell_workbook coord v = \<lparr>defined_names = [],
     worksheets = [(''Sheet1'', sheet_of_rows [[plain_cell coord v]])]\<rparr>"

definition constant_libraries :: "vba_parser \<Rightarrow> workbook \<Rightarrow> workbook \<Rightarrow> libraries" where
  \<comment> \<open>libraries that find the same macros and the same two views in every file\<close>
  "constant_libraries parser wb eval_wb = \<lparr>
     VBA_Parser = (\<lambda>bytes. Inr parser),
     load_workbook = (\<lambda>bytes data_only. Inr (if data_only then eval_wb else wb))\<rparr>"

definition one_module :: vba_parser where
  \<comment> \<open>macros are detected: one module with a header line and a procedure\<close>
  \<open>one_module = \<lparr>detect_vba_macros = True,
     extract_all_macros = [(''book.xlsm'', ''VBA/Module1'', ''Module1.bas'',
       ''Attribute VB_Name = "Module1"'' @ [CHR 0x0D, CHR 0x0A]
         @ ''Sub a()'' @ [CHR 0x0D, CHR 0x0A] @ ''End Sub'' @ [CHR 0x0D, CHR 0x0A])]\<rparr>\<close>

definition attribute_only :: vba_parser where
  \<comment> \<open>macros are detected: one module that consists of its header line\<close>
  \<open>attribute_only = \<lparr>detect_vba_macros = True,
     extract_all_macros =
       [(''book.xlsm'', ''VBA/Module1'', ''Module1.bas'', ''Attribute VB_Name = "Module1"'')]\<rparr>\<close>

definition no_macros :: vba_parser where
  \<comment> \<open>no macros are detected\<close>
  "no_macros = \<lparr>detect_vba_macros = False, extract_all_macros = []\<rparr>"


definition example_libraries :: libraries where
  \<comment> \<open>in every file: one macro module, and a sheet whose cell A1 holds the formula
      \<open>=1+1\<close> with the cached result 2\<close>
  "example_libraries =
     constant_libraries one_module (one_cell_workbook ''A1'' (VStr ''=1+1''))
       (one_cell_workbook ''A1'' (VInt 2))"

section \<open>Properties\<close>

subsection \<open>Basic facts\<close>

lemma and_then_Ok [simp]: "and_then x Ok = x"
  by (cases x) simp_all

lemma process_files_Nil [simp]: "process_files lib [] = Ok"
  by (rule ext) simp

lemma excel_name_fooxls: "endswith_any ''fooxls'' EXCEL_FILE_EXTENSIONS"
  by (simp add: endswith_any_def endswith_def EXCEL_FILE_EXTENSIONS_def)

lemma excel_name_foo_not_xlsx: "endswith_any ''foo.not_xlsx'' EXCEL_FILE_EXTENSIONS"
  by (simp add: endswith_any_def endswith_def EXCEL_FILE_EXTENSIONS_def)

lemma splitext_fooxls: "splitext ''fooxls'' = (''fooxls'', [])"
  by (simp add: splitext_def)

lemma splitext_foo_not_xlsx: "splitext ''foo.not_xlsx'' = (''foo'', ''.not_xlsx'')"
  by (simp add: splitext_def)

lemma main_single_file:
  "main lib [(name, File bytes)] =
     (if name = ''src.vba'' \<or> name = ''excel_reports''
      then Raised NotADirectoryError [(name, File bytes)]
      else process_file lib (''.'', name, bytes) [(name, File bytes)])"
  by (simp add: main_def remove_old_def path_exists_def rmtree_def)

subsection \<open>The type of a boolean cell\<close>

text \<open>
  C2. The claim: a cell whose value is a boolean is reported with Type='Boolean'. The code
  tests \<open>isinstance(cell.value, (int, float))\<close> before \<open>isinstance(cell.value, bool)\<close>, and a
  Python \<open>bool\<close> is an \<open>int\<close>: a cell with a boolean value appends a line with
  Type='Number'. The branch for 'Boolean' is never taken.
\<close>

theorem boolean_cell_typed_number:
  "cell_value c = VBool b \<Longrightarrow>
     formulas_cell c =
       [''Cell '' @ coordinate c @ '': Value='' @ quoted (if b then ''True'' else ''False'')
          @ '', Type='' @ quoted ''Number'']"
  by (simp add: formulas_cell_def formulas_line_def cell_type_def)

theorem boolean_cell_typed_number_witness:
  "formulas_cell (plain_cell ''B2'' (VBool True)) =
     [''Cell B2: Value='' @ quoted ''True'' @ '', Type='' @ quoted ''Number'']"
  using boolean_cell_typed_number [of "plain_cell ''B2'' (VBool True)" True]
  by (simp add: plain_cell_def)

subsection \<open>The discovery filter\<close>

text \<open>
  C3. The claim: a file named \<open>foo.not_xlsx\<close> is not selected by the filter of line 153.
  The name ends with the characters \<open>xlsx\<close>, so \<open>endswith\<close> holds and the file is selected.
\<close>

theorem foo_not_xlsx_selected:
  "endswith_any ''foo.not_xlsx'' EXCEL_FILE_EXTENSIONS"
  by (simp add: endswith_any_def endswith_def EXCEL_FILE_EXTENSIONS_def)

text \<open>
  C3, as the code has it: a file named \<open>foo.not_xlsx\<close> is selected, and a run over a
  directory that holds this file alone processes it under the prefix \<open>foo\<close>.
\<close>

theorem foo_not_xlsx_is_processed:
  "main lib [(''foo.not_xlsx'', File bytes)] =
     and_then (parse_vba lib bytes ''foo'' [(''foo.not_xlsx'', File bytes)])
       (generate_text_reports lib bytes ''foo'')"
  by (simp add: main_single_file process_file_def excel_name_foo_not_xlsx
      splitext_foo_not_xlsx Let_def)

theorem foo_not_xlsx_is_processed_witness:
  "returned (main example_libraries [(''foo.not_xlsx'', File ''x'')])
   \<and> read_file ''src.vba'' ''foo_Module1.bas''
       (directory_of (main example_libraries [(''foo.not_xlsx'', File ''x'')]))
     = Some (''Sub a()'' @ newline @ ''End Sub'')"
proof -
  have "returned (and_then (parse_vba example_libraries ''x'' ''foo'' [(''foo.not_xlsx'', File ''x'')])
                   (generate_text_reports example_libraries ''x'' ''foo''))
   \<and> read_file ''src.vba'' ''foo_Module1.bas''
       (directory_of (and_then (parse_vba example_libraries ''x'' ''foo'' [(''foo.not_xlsx'', File ''x'')])
                   (generate_text_reports example_libraries ''x'' ''foo'')))
     = Some (''Sub a()'' @ newline @ ''End Sub'')"
    by code_simp
  then show ?thesis
    by (simp only: foo_not_xlsx_is_processed [of example_libraries "''x''"])
qed

text \<open>
  C4. A file named \<open>fooxls\<close> has no extension, its name ends with the characters \<open>xls\<close>,
  and a run over a directory that holds this file alone processes it, under the prefix
  \<open>fooxls\<close>.
\<close>

theorem fooxls_is_processed:
  "endswith_any ''fooxls'' EXCEL_FILE_EXTENSIONS
   \<and> splitext ''fooxls'' = (''fooxls'', [])
   \<and> main lib [(''fooxls'', File bytes)] =
       and_then (parse_vba lib bytes ''fooxls'' [(''fooxls'', File bytes)])
         (generate_text_reports lib bytes ''fooxls'')"
  by (simp add: main_single_file process_file_def excel_name_fooxls splitext_fooxls Let_def)

theorem fooxls_is_processed_witness:
  "returned (main example_libraries [(''fooxls'', File ''x'')])
   \<and> read_file ''src.vba'' ''fooxls_Module1.bas''
       (directory_of (main example_libraries [(''fooxls'', File ''x'')]))
     = Some (''Sub a()'' @ newline @ ''End Sub'')"
proof -
  have "returned (and_then (parse_vba example_libraries ''x'' ''fooxls'' [(''fooxls'', File ''x'')])
                   (generate_text_reports example_libraries ''x'' ''fooxls''))
   \<and> read_file ''src.vba'' ''fooxls_Module1.bas''
       (directory_of (and_then (parse_vba example_libraries ''x'' ''fooxls'' [(''fooxls'', File ''x'')])
                   (generate_text_reports example_libraries ''x'' ''fooxls'')))
     = Some (''Sub a()'' @ newline @ ''End Sub'')"
    by code_simp
  then show ?thesis
    using fooxls_is_processed [of example_libraries "''x''"] by simp
qed

subsection \<open>Steps that return\<close>

lemma and_then_OkE:
  assumes "and_then x f = Ok fs'"
  obtains fs1 where "x = Ok fs1" and "f fs1 = Ok fs'"
  using assms by (cases x) auto

lemma returned_OkE:
  assumes "returned x"
  obtains fs' where "x = Ok fs'"
  using assms by (cases x) auto

lemma makedirs_isdir: "makedirs d fs = Ok fs' \<Longrightarrow> isdir d fs'"
  by (auto simp: makedirs_def isdir_def update_conv' split: option.splits node.splits)

lemma write_file_isdir: "write_file d n t fs = Ok fs' \<Longrightarrow> isdir d fs'"
  by (auto simp: write_file_def isdir_def update_conv' split: option.splits node.splits if_splits)

lemma makedirs_keeps_dir: "makedirs d fs = Ok fs' \<Longrightarrow> isdir k fs \<Longrightarrow> isdir k fs'"
  by (auto simp: makedirs_def isdir_def update_conv' split: option.splits node.splits if_splits)

lemma write_file_keeps_dir: "write_file d n t fs = Ok fs' \<Longrightarrow> isdir k fs \<Longrightarrow> isdir k fs'"
  by (auto simp: write_file_def isdir_def update_conv' split: option.splits node.splits if_splits)

lemma write_file_read:
  "write_file d n t fs = Ok fs' \<Longrightarrow>
     read_file d n' fs' = (if n' = n then Some t else read_file d n' fs)"
  by (auto simp: write_file_def read_file_def update_conv'
      split: if_splits option.splits node.splits)

subsection \<open>Modules that are empty after filtering\<close>

lemma attribute_line:
  \<open>content_filtered ''Attribute VB_Name = "Module1"'' = []\<close>
  by (simp add: content_filtered_def splitlines_def startswith_def is_line_boundary_def
      KEEP_NAME_def)

lemma attribute_line_lf:
  \<open>content_filtered (''Attribute VB_Name = "Module1"'' @ [CHR 0x0A]) = []\<close>
  by (simp add: content_filtered_def splitlines_def startswith_def is_line_boundary_def
      KEEP_NAME_def)

lemma attribute_line_crlf:
  \<open>content_filtered (''Attribute VB_Name = "Module1"'' @ [CHR 0x0D, CHR 0x0A]) = []\<close>
  by (simp add: content_filtered_def splitlines_def startswith_def is_line_boundary_def
      KEEP_NAME_def)

lemma write_modules_all_empty:
  "list_all empty_after_filtering ms \<Longrightarrow> write_modules file_prefix ms fs = Ok fs"
  by (induction ms arbitrary: fs) (auto simp: empty_after_filtering_def)

lemma write_modules_keeps_dir:
  "write_modules p ms fs = Ok fs' \<Longrightarrow> isdir k fs \<Longrightarrow> isdir k fs'"
proof (induction ms arbitrary: fs)
  case Nil
  then show ?case by simp
next
  case (Cons m ms)
  obtain container stream filename content where m: "m = (container, stream, filename, content)"
    by (cases m) auto
  show ?case
  proof (cases "content_filtered content = []")
    case True
    with Cons m show ?thesis by simp
  next
    case False
    with Cons.prems(1) m obtain fs1 fs2 where
      a: "makedirs ''src.vba'' fs = Ok fs1" and
      b: "write_file ''src.vba'' (p @ ''_'' @ filename)
            (join newline (content_filtered content)) fs1 = Ok fs2" and
      c: "write_modules p ms fs2 = Ok fs'"
      by (auto elim!: and_then_OkE)
    from a Cons.prems(2) have "isdir k fs1" by (rule makedirs_keeps_dir)
    with b have "isdir k fs2" by (rule write_file_keeps_dir)
    with c show ?thesis by (rule Cons.IH)
  qed
qed

lemma write_modules_creates_dir:
  "write_modules p ms fs = Ok fs' \<Longrightarrow> list_ex (\<lambda>m. \<not> empty_after_filtering m) ms \<Longrightarrow>
     isdir ''src.vba'' fs'"
proof (induction ms arbitrary: fs)
  case Nil
  then show ?case by simp
next
  case (Cons m ms)
  obtain container stream filename content where m: "m = (container, stream, filename, content)"
    by (cases m) auto
  show ?case
  proof (cases "content_filtered content = []")
    case True
    with Cons m show ?thesis by (simp add: empty_after_filtering_def)
  next
    case False
    with Cons.prems(1) m obtain fs1 fs2 where
      b: "write_file ''src.vba'' (p @ ''_'' @ filename)
            (join newline (content_filtered content)) fs1 = Ok fs2" and
      c: "write_modules p ms fs2 = Ok fs'"
      by (auto elim!: and_then_OkE)
    from b have "isdir ''src.vba'' fs2" by (rule write_file_isdir)
    with c show ?thesis by (rule write_modules_keeps_dir)
  qed
qed

text \<open>
  C5. A workbook with one macro module whose source is the single line
  \<open>Attribute VB_Name = "Module1"\<close> (with or without a line end after it): with
  \<open>KEEP_NAME = False\<close> the filter of lines 20 to 24 keeps no line, and \<open>parse_vba\<close> returns
  with the working directory as it found it.
\<close>

theorem attribute_only_module_no_file:
  assumes \<open>VBA_Parser lib workbook_file = Inr vba_parser\<close>
    and \<open>extract_all_macros vba_parser = [(container, stream, filename, content)]\<close>
    and \<open>content \<in> set [''Attribute VB_Name = "Module1"'',
            ''Attribute VB_Name = "Module1"'' @ [CHR 0x0A],
            ''Attribute VB_Name = "Module1"'' @ [CHR 0x0D, CHR 0x0A]]\<close>
  shows \<open>content_filtered content = [] \<and> parse_vba lib workbook_file file_prefix fs = Ok fs\<close>
proof -
  from assms(3) have empty: "content_filtered content = []"
    using attribute_line attribute_line_lf attribute_line_crlf by auto
  then show ?thesis using assms(1,2) by (simp add: parse_vba_def)
qed

theorem attribute_only_module_no_file_witness:
  \<open>content_filtered ''Attribute VB_Name = "Module1"'' = []
   \<and> parse_vba (constant_libraries attribute_only (one_cell_workbook ''A1'' (VInt 1))
       (one_cell_workbook ''A1'' (VInt 1))) ''x'' ''book'' [(''book.xlsm'', File ''x'')]
       = Ok [(''book.xlsm'', File ''x'')]\<close>
  using attribute_only_module_no_file [of "constant_libraries attribute_only (one_cell_workbook ''A1'' (VInt 1))
       (one_cell_workbook ''A1'' (VInt 1))" "''x''"
      attribute_only "''book.xlsm''" "''VBA/Module1''" "''Module1.bas''"
      \<open>''Attribute VB_Name = "Module1"''\<close> "''book''" "[(''book.xlsm'', File ''x'')]"]
  by (simp add: constant_libraries_def attribute_only_def)

text \<open>
  C6. When \<open>detect_vba_macros()\<close> is false, \<open>parse_vba\<close> returns with the working directory as
  it found it: no file is written and \<open>src.vba\<close> is not created.
\<close>

theorem no_macros_no_change:
  "VBA_Parser lib workbook_file = Inr vba_parser \<Longrightarrow> \<not> detect_vba_macros vba_parser \<Longrightarrow>
     parse_vba lib workbook_file file_prefix fs = Ok fs"
  by (simp add: parse_vba_def)

theorem no_macros_no_change_witness:
  "parse_vba (constant_libraries no_macros (one_cell_workbook ''A1'' (VInt 1))
       (one_cell_workbook ''A1'' (VInt 1))) ''x'' ''book'' [(''book.xlsx'', File ''x'')]
     = Ok [(''book.xlsx'', File ''x'')]
   \<and> \<not> path_exists ''src.vba'' [(''book.xlsx'', File ''x'')]"
  using no_macros_no_change [of "constant_libraries no_macros (one_cell_workbook ''A1'' (VInt 1))
       (one_cell_workbook ''A1'' (VInt 1))" "''x''" no_macros "''book''"
       "[(''book.xlsx'', File ''x'')]"]
  by (simp add: constant_libraries_def no_macros_def path_exists_def)

text \<open>
  C10. When macros are detected and every module is empty after the filter, \<open>parse_vba\<close>
  returns with the working directory as it found it: \<open>src.vba\<close> is not created. When some
  module is not empty after the filter and \<open>parse_vba\<close> returns, \<open>src.vba\<close> is a directory.
\<close>

theorem all_modules_empty_no_directory:
  assumes "VBA_Parser lib workbook_file = Inr vba_parser"
    and "detect_vba_macros vba_parser"
  shows "(list_all empty_after_filtering (extract_all_macros vba_parser) \<longrightarrow>
            parse_vba lib workbook_file file_prefix fs = Ok fs)
       \<and> (list_ex (\<lambda>m. \<not> empty_after_filtering m) (extract_all_macros vba_parser) \<longrightarrow>
            parse_vba lib workbook_file file_prefix fs = Ok fs' \<longrightarrow> isdir ''src.vba'' fs')"
  using assms
  by (auto simp: parse_vba_def write_modules_all_empty dest: write_modules_creates_dir)

theorem all_modules_empty_no_directory_witness:
  "parse_vba (constant_libraries attribute_only (one_cell_workbook ''A1'' (VInt 1))
       (one_cell_workbook ''A1'' (VInt 1))) ''x'' ''book'' [] = Ok []
   \<and> \<not> path_exists ''src.vba'' []
   \<and> parse_vba example_libraries ''x'' ''book'' []
       = Ok [(''src.vba'', Dir [(''book_Module1.bas'', File (''Sub a()'' @ newline @ ''End Sub''))])]
   \<and> isdir ''src.vba''
       [(''src.vba'', Dir [(''book_Module1.bas'', File (''Sub a()'' @ newline @ ''End Sub''))])]"
proof -
  have e: "list_all empty_after_filtering (extract_all_macros attribute_only)"
    by (simp add: attribute_only_def empty_after_filtering_def attribute_line)
  have n: "list_ex (\<lambda>m. \<not> empty_after_filtering m) (extract_all_macros one_module)"
    by code_simp
  have r: "parse_vba example_libraries ''x'' ''book'' []
       = Ok [(''src.vba'', Dir [(''book_Module1.bas'', File (''Sub a()'' @ newline @ ''End Sub''))])]"
    by code_simp
  show ?thesis
    using all_modules_empty_no_directory [of "constant_libraries attribute_only (one_cell_workbook ''A1'' (VInt 1))
       (one_cell_workbook ''A1'' (VInt 1))" "''x''"
        attribute_only "''book''" "[]"] e
      all_modules_empty_no_directory [of example_libraries "''x''" one_module "''book''" "[]"
        "[(''src.vba'', Dir [(''book_Module1.bas'', File (''Sub a()'' @ newline @ ''End Sub''))])]"]
      n r
    by (simp add: constant_libraries_def example_libraries_def attribute_only_def
        one_module_def path_exists_def)
qed

subsection \<open>The view behind the formulas-and-values report\<close>

lemma map_of_extend:
  "map_of (extend r k s) k' =
     (if k' = k then map_option (\<lambda>c. c @ s) (map_of r k) else map_of r k')"
  by (simp add: extend_def map_of_map_entry split: option.splits)

lemma keys_extend: "map fst (extend r k s) = map fst r"
  unfolding extend_def by (induction r) auto

lemma sheet_reports_formulas:
  "map_of (sheet_reports p n sh esh r) (p @ ''_formulas_and_values.txt'') =
     map_option (\<lambda>c. c @ formulas_section n sh) (map_of r (p @ ''_formulas_and_values.txt''))"
  by (simp add: sheet_reports_def Let_def map_of_extend)

lemma keys_sheet_reports: "map fst (sheet_reports p n sh esh r) = map fst r"
  by (simp add: sheet_reports_def Let_def keys_extend)

lemma sheets_loop_formulas:
  "sheets_loop wb ewb p names r = Inr r' \<Longrightarrow>
     map_of r' (p @ ''_formulas_and_values.txt'') =
       map_option (\<lambda>c. c @ concat (map (\<lambda>name. case getitem wb name of
                                         Some sh \<Rightarrow> formulas_section name sh | None \<Rightarrow> []) names))
         (map_of r (p @ ''_formulas_and_values.txt''))"
proof (induction names arbitrary: r)
  case Nil
  then show ?case by (simp add: option.map_ident)
next
  case (Cons n names)
  from Cons.prems obtain sh esh where
    sh: "getitem wb n = Some sh" and esh: "getitem ewb n = Some esh" and
    rest: "sheets_loop wb ewb p names (sheet_reports p n sh esh r) = Inr r'"
    by (auto split: option.splits)
  show ?case
    unfolding Cons.IH [OF rest] sheet_reports_formulas
    by (simp add: sh option.map_comp comp_def)
qed

lemma keys_sheets_loop:
  "sheets_loop wb ewb p names r = Inr r' \<Longrightarrow> map fst r' = map fst r"
  by (induction names arbitrary: r) (auto simp: keys_sheet_reports split: option.splits)

lemma build_reports_formulas:
  "build_reports wb ewb p = Inr r \<Longrightarrow>
     map_of r (p @ ''_formulas_and_values.txt'') = Some (formulas_and_values_of wb)"
  unfolding build_reports_def
  by (drule sheets_loop_formulas)
    (simp add: map_of_extend initial_reports_def formulas_and_values_of_def)

lemma keys_build_reports:
  "build_reports wb ewb p = Inr r \<Longrightarrow> distinct (map fst r)"
  unfolding build_reports_def
  by (drule keys_sheets_loop) (simp add: keys_extend initial_reports_def)

lemma save_reports_read:
  "distinct (map fst r) \<Longrightarrow> save_reports r fs = Ok fs' \<Longrightarrow>
     read_file ''excel_reports'' k fs' =
       (case map_of r k of Some c \<Rightarrow> Some (join newline c @ newline)
        | None \<Rightarrow> read_file ''excel_reports'' k fs)"
proof (induction r arbitrary: fs)
  case Nil
  then show ?case by simp
next
  case (Cons a r)
  obtain k0 c0 where a: "a = (k0, c0)" by (cases a) auto
  from Cons.prems(2) a obtain fs1 where
    w: "write_file ''excel_reports'' k0 (join newline c0 @ newline) fs = Ok fs1" and
    rest: "save_reports r fs1 = Ok fs'"
    by (auto elim!: and_then_OkE)
  from Cons.prems(1) a have d: "distinct (map fst r)" and k0: "map_of r k0 = None"
    by (auto simp: map_of_eq_None_iff)
  show ?case
    unfolding Cons.IH [OF d rest] write_file_read [OF w]
    using k0 by (auto simp: a split: option.splits)
qed




subsection \<open>Cells whose value is not None and not true\<close>

lemma falsy_cell:
  "cell_value c \<noteq> VNone \<Longrightarrow> \<not> truthy (cell_value c) \<Longrightarrow>
     formulas_cell c = [formulas_line c] \<and> formatting_cell c = []"
  by (simp add: formulas_cell_def formatting_cell_def)

lemma sheet_reports_formatting:
  "map_of (sheet_reports p n sh esh r) (p @ ''_formatting.txt'') =
     map_option (\<lambda>c. c @ formatting_section n sh) (map_of r (p @ ''_formatting.txt''))"
  by (simp add: sheet_reports_def Let_def map_of_extend)

lemma sheets_loop_formatting:
  "sheets_loop wb ewb p names r = Inr r' \<Longrightarrow>
     map_of r' (p @ ''_formatting.txt'') =
       map_option (\<lambda>c. c @ concat (map (\<lambda>name. case getitem wb name of
                                         Some sh \<Rightarrow> formatting_section name sh | None \<Rightarrow> []) names))
         (map_of r (p @ ''_formatting.txt''))"
proof (induction names arbitrary: r)
  case Nil
  then show ?case by (simp add: option.map_ident)
next
  case (Cons n names)
  from Cons.prems obtain sh esh where
    sh: "getitem wb n = Some sh" and
    rest: "sheets_loop wb ewb p names (sheet_reports p n sh esh r) = Inr r'"
    by (auto split: option.splits)
  show ?case
    unfolding Cons.IH [OF rest] sheet_reports_formatting
    by (simp add: sh option.map_comp comp_def)
qed

lemma build_reports_formatting:
  "build_reports wb ewb p = Inr r \<Longrightarrow>
     map_of r (p @ ''_formatting.txt'') = Some (formatting_of wb)"
  unfolding build_reports_def
  by (drule sheets_loop_formatting)
    (simp add: map_of_extend initial_reports_def formatting_of_def)

lemma sections_by_title:
  assumes "distinct (map fst ws)"
  shows "map (\<lambda>name. case map_of ws name of Some sh \<Rightarrow> f name sh | None \<Rightarrow> []) (map fst ws)
           = map (\<lambda>(name, sh). f name sh) ws"
  using assms by (auto simp: map_of_is_SomeI [OF assms])

lemma formulas_and_values_by_title:
  "distinct (map fst (worksheets wb)) \<Longrightarrow>
     formulas_and_values_of wb =
       concat (map (\<lambda>(name, sh). formulas_section name sh) (worksheets wb))"
  by (simp add: formulas_and_values_of_def sheetnames_def getitem_def sections_by_title
      del: map_map)

lemma formatting_by_title:
  "distinct (map fst (worksheets wb)) \<Longrightarrow>
     formatting_of wb = concat (map (\<lambda>(name, sh). formatting_section name sh) (worksheets wb))"
  by (simp add: formatting_of_def sheetnames_def getitem_def sections_by_title del: map_map)

lemma generate_text_reports_two_files:
  assumes "generate_text_reports lib workbook_file file_prefix fs = Ok fs'"
    and "load_workbook lib workbook_file False = Inr wb"
  shows "read_file ''excel_reports'' (file_prefix @ ''_formulas_and_values.txt'') fs' =
           Some (join newline (formulas_and_values_of wb) @ newline)"
    and "read_file ''excel_reports'' (file_prefix @ ''_formatting.txt'') fs' =
           Some (join newline (formatting_of wb) @ newline)"
proof -
  from assms obtain fs1 ewb r where
    b: "build_reports wb ewb file_prefix = Inr r" and s: "save_reports r fs1 = Ok fs'"
    by (auto simp: generate_text_reports_def elim!: and_then_OkE split: sum.splits)
  from b have d: "distinct (map fst r)" by (rule keys_build_reports)
  show "read_file ''excel_reports'' (file_prefix @ ''_formulas_and_values.txt'') fs' =
           Some (join newline (formulas_and_values_of wb) @ newline)"
    using save_reports_read [OF d s, of "file_prefix @ ''_formulas_and_values.txt''"]
      build_reports_formulas [OF b]
    by simp
  show "read_file ''excel_reports'' (file_prefix @ ''_formatting.txt'') fs' =
           Some (join newline (formatting_of wb) @ newline)"
    using save_reports_read [OF d s, of "file_prefix @ ''_formatting.txt''"]
      build_reports_formatting [OF b]
    by simp
qed

text \<open>
  C8. Let a sheet of the workbook hold a cell whose value is not None but false in a
  condition (the number 0, the empty string). When \<open>generate_text_reports\<close> returns, the
  file \<open>{prefix}_formulas_and_values.txt\<close> holds the line of that cell, at its place among
  the lines of the other cells of the sheet, and the file \<open>{prefix}_formatting.txt\<close> holds
  no line for it: for that sheet it holds the section the sheet gives without the cell.
\<close>

theorem falsy_cell_in_one_report_only:
  assumes "generate_text_reports lib workbook_file file_prefix fs = Ok fs'"
    and "load_workbook lib workbook_file False = Inr wb"
    and "worksheets wb = sheets_before @ (sheet_name, sh) # sheets_after"
    and "distinct (map fst (worksheets wb))"
    and "iter_rows sh = rows_before @ (left @ c # right) # rows_after"
    and "cell_value c \<noteq> VNone" and "\<not> truthy (cell_value c)"
  shows "read_file ''excel_reports'' (file_prefix @ ''_formulas_and_values.txt'') fs' =
           Some (join newline
             (concat (map (\<lambda>(name, s). formulas_section name s) sheets_before)
              @ (sheet_header sheet_name
                 # concat (map (\<lambda>row. concat (map formulas_cell row)) rows_before)
                 @ concat (map formulas_cell left) @ [formulas_line c]
                 @ concat (map formulas_cell right)
                 @ concat (map (\<lambda>row. concat (map formulas_cell row)) rows_after))
              @ concat (map (\<lambda>(name, s). formulas_section name s) sheets_after))
             @ newline)
       \<and> read_file ''excel_reports'' (file_prefix @ ''_formatting.txt'') fs' =
           Some (join newline
             (concat (map (\<lambda>(name, s). formatting_section name s) sheets_before)
              @ formatting_section sheet_name
                  (sh\<lparr>iter_rows := rows_before @ (left @ right) # rows_after\<rparr>)
              @ concat (map (\<lambda>(name, s). formatting_section name s) sheets_after))
             @ newline)"
proof -
  have f: "formulas_section sheet_name sh =
           sheet_header sheet_name
             # concat (map (\<lambda>row. concat (map formulas_cell row)) rows_before)
             @ concat (map formulas_cell left) @ [formulas_line c]
             @ concat (map formulas_cell right)
             @ concat (map (\<lambda>row. concat (map formulas_cell row)) rows_after)"
    using assms(5-7) by (simp add: formulas_section_def falsy_cell)
  have g: "formatting_section sheet_name sh =
           formatting_section sheet_name
             (sh\<lparr>iter_rows := rows_before @ (left @ right) # rows_after\<rparr>)"
    using assms(5-7) by (simp add: formatting_section_def falsy_cell)
  have "formulas_and_values_of wb =
          concat (map (\<lambda>(name, s). formulas_section name s) sheets_before)
          @ formulas_section sheet_name sh
          @ concat (map (\<lambda>(name, s). formulas_section name s) sheets_after)"
    by (simp add: formulas_and_values_by_title [OF assms(4)] assms(3))
  moreover have "formatting_of wb =
          concat (map (\<lambda>(name, s). formatting_section name s) sheets_before)
          @ formatting_section sheet_name sh
          @ concat (map (\<lambda>(name, s). formatting_section name s) sheets_after)"
    by (simp add: formatting_by_title [OF assms(4)] assms(3))
  ultimately show ?thesis
    using generate_text_reports_two_files [OF assms(1,2)] f g by simp
qed

theorem falsy_cell_in_one_report_only_witness:
  "returned (generate_text_reports
      (constant_libraries no_macros
         \<lparr>defined_names = [], worksheets = [(''Sheet1'',
            sheet_of_rows [[plain_cell ''A1'' (VInt 0), plain_cell ''B1'' (VStr ''x'')]])]\<rparr>
         (one_cell_workbook ''A1'' (VInt 0)))
      ''x'' ''book'' [])
   \<and> read_file ''excel_reports'' ''book_formulas_and_values.txt''
       (directory_of (generate_text_reports
          (constant_libraries no_macros
             \<lparr>defined_names = [], worksheets = [(''Sheet1'',
                sheet_of_rows [[plain_cell ''A1'' (VInt 0), plain_cell ''B1'' (VStr ''x'')]])]\<rparr>
             (one_cell_workbook ''A1'' (VInt 0)))
          ''x'' ''book'' []))
     = Some (join newline
         [sheet_header ''Sheet1'',
          ''Cell A1: Value='' @ quoted ''0'' @ '', Type='' @ quoted ''Number'',
          ''Cell B1: Value='' @ quoted ''x'' @ '', Type='' @ quoted ''Text''] @ newline)
   \<and> read_file ''excel_reports'' ''book_formatting.txt''
       (directory_of (generate_text_reports
          (constant_libraries no_macros
             \<lparr>defined_names = [], worksheets = [(''Sheet1'',
                sheet_of_rows [[plain_cell ''A1'' (VInt 0), plain_cell ''B1'' (VStr ''x'')]])]\<rparr>
             (one_cell_workbook ''A1'' (VInt 0)))
          ''x'' ''book'' []))
     = Some (join newline
         [sheet_header ''Sheet1'', formatting_line (plain_cell ''B1'' (VStr ''x''))] @ newline)"
proof -
  let ?a = "plain_cell ''A1'' (VInt 0)" and ?b = "plain_cell ''B1'' (VStr ''x'')"
  let ?sh = "sheet_of_rows [[?a, ?b]]"
  let ?wb = "\<lparr>defined_names = [], worksheets = [(''Sheet1'', ?sh)]\<rparr>"
  let ?lib = "constant_libraries no_macros ?wb (one_cell_workbook ''A1'' (VInt 0))"
  have r: "returned (generate_text_reports ?lib ''x'' ''book'' [])"
    by code_simp
  then obtain fs' where g: "generate_text_reports ?lib ''x'' ''book'' [] = Ok fs'"
    by (rule returned_OkE)
  have l: "load_workbook ?lib ''x'' False = Inr ?wb"
    by (simp add: constant_libraries_def)
  have w: "worksheets ?wb = [] @ (''Sheet1'', ?sh) # []"
    and d: "distinct (map fst (worksheets ?wb))"
    and i: "iter_rows ?sh = [] @ ([] @ ?a # [?b]) # []"
    and a: "cell_value ?a \<noteq> VNone" "\<not> truthy (cell_value ?a)"
    by (simp_all add: sheet_of_rows_def plain_cell_def)
  have la: "formulas_line ?a = ''Cell A1: Value='' @ quoted ''0'' @ '', Type='' @ quoted ''Number''"
    and cb: "formulas_cell ?b = [''Cell B1: Value='' @ quoted ''x'' @ '', Type='' @ quoted ''Text'']"
    and fb: "formatting_section ''Sheet1'' (?sh\<lparr>iter_rows := [[?b]]\<rparr>)
               = [sheet_header ''Sheet1'', formatting_line ?b]"
    by code_simp+
  from falsy_cell_in_one_report_only [OF g l w d i a] r show ?thesis
    by (simp add: g la cb fb)
qed

subsection \<open>The removal of old output and the walk\<close>

lemma walk_delete_subset: "set (walk r (Dir (AList.delete k es))) \<subseteq> set (walk r (Dir es))"
  by (auto simp: AList.delete_eq)

lemma process_files_not_excel:
  "list_all not_excel es \<Longrightarrow> process_files lib es fs = Ok fs"
  by (induction es) (auto simp: not_excel_def process_file_def)

lemma remove_old_eq:
  "remove_old n fs = (if isfile n fs then Raised NotADirectoryError fs else Ok (AList.delete n fs))"
proof (cases "map_of fs n")
  case None
  then have "AList.delete n fs = fs" by (simp add: map_of_eq_None_iff)
  with None show ?thesis by (simp add: remove_old_def path_exists_def isfile_def)
next
  case (Some a)
  then show ?thesis
    by (cases a) (simp_all add: remove_old_def path_exists_def rmtree_def isfile_def)
qed

lemma isfile_delete: "isfile n (AList.delete k fs) = (n \<noteq> k \<and> isfile n fs)"
  by (auto simp: isfile_def delete_conv')

lemma path_exists_delete: "path_exists n (AList.delete k fs) = (n \<noteq> k \<and> path_exists n fs)"
  by (auto simp: path_exists_def delete_conv')

lemma main_eq:
  "main lib fs =
     (if isfile ''src.vba'' fs then Raised NotADirectoryError fs
      else if isfile ''excel_reports'' fs
        then Raised NotADirectoryError (AList.delete ''src.vba'' fs)
      else process_files lib
             (walk ''.'' (Dir (AList.delete ''excel_reports'' (AList.delete ''src.vba'' fs))))
             (AList.delete ''excel_reports'' (AList.delete ''src.vba'' fs)))"
  by (simp add: main_def remove_old_eq isfile_delete)

text \<open>
  C7. In a working directory where no file passes the filter of line 153: when neither
  \<open>src.vba\<close> nor \<open>excel_reports\<close> is a regular file, the run returns and leaves the
  directory as it was except that the two are gone; and whenever the run returns, neither
  of the two exists. (On a regular file of one of these names \<open>shutil.rmtree\<close> raises, and
  the run ends there.)
\<close>

theorem no_excel_files_no_output_directories:
  assumes "list_all not_excel (walk ''.'' (Dir fs))"
  shows "(\<not> isfile ''src.vba'' fs \<and> \<not> isfile ''excel_reports'' fs \<longrightarrow>
            main lib fs = Ok (AList.delete ''excel_reports'' (AList.delete ''src.vba'' fs)))
       \<and> (main lib fs = Ok fs' \<longrightarrow>
            \<not> path_exists ''src.vba'' fs' \<and> \<not> path_exists ''excel_reports'' fs')"
proof -
  let ?fs1 = "AList.delete ''excel_reports'' (AList.delete ''src.vba'' fs)"
  have "set (walk ''.'' (Dir ?fs1)) \<subseteq> set (walk ''.'' (Dir fs))"
    using walk_delete_subset [of "''.''" "''excel_reports''" "AList.delete ''src.vba'' fs"]
      walk_delete_subset [of "''.''" "''src.vba''" fs] by blast
  with assms have "list_all not_excel (walk ''.'' (Dir ?fs1))"
    unfolding list_all_iff by blast
  then have "process_files lib (walk ''.'' (Dir ?fs1)) ?fs1 = Ok ?fs1"
    by (rule process_files_not_excel)
  then show ?thesis
    by (auto simp: main_eq path_exists_delete)
qed

theorem no_excel_files_no_output_directories_witness:
  "list_all not_excel (walk ''.''
     (Dir [(''src.vba'', Dir [(''old_Module1.bas'', File ''Sub a()'')]),
           (''notes.txt'', File ''hello''),
           (''excel_reports'', Dir [(''old_hyperlinks.txt'', File ''x'')]),
           (''docs'', Dir [(''readme.md'', File ''x'')])]))
   \<and> main example_libraries
       [(''src.vba'', Dir [(''old_Module1.bas'', File ''Sub a()'')]),
        (''notes.txt'', File ''hello''),
        (''excel_reports'', Dir [(''old_hyperlinks.txt'', File ''x'')]),
        (''docs'', Dir [(''readme.md'', File ''x'')])]
     = Ok [(''notes.txt'', File ''hello''), (''docs'', Dir [(''readme.md'', File ''x'')])]
   \<and> \<not> path_exists ''src.vba''
         [(''notes.txt'', File ''hello''), (''docs'', Dir [(''readme.md'', File ''x'')])]
   \<and> \<not> path_exists ''excel_reports''
         [(''notes.txt'', File ''hello''), (''docs'', Dir [(''readme.md'', File ''x'')])]"
proof -
  let ?fs = "[(''src.vba'', Dir [(''old_Module1.bas'', File ''Sub a()'')]),
              (''notes.txt'', File ''hello''),
              (''excel_reports'', Dir [(''old_hyperlinks.txt'', File ''x'')]),
              (''docs'', Dir [(''readme.md'', File ''x'')])]"
  have h: "list_all not_excel (walk ''.'' (Dir ?fs))"
    by code_simp
  have f: "\<not> isfile ''src.vba'' ?fs" "\<not> isfile ''excel_reports'' ?fs"
    by (simp_all add: isfile_def)
  have d: "AList.delete ''excel_reports'' (AList.delete ''src.vba'' ?fs)
             = [(''notes.txt'', File ''hello''), (''docs'', Dir [(''readme.md'', File ''x'')])]"
    by (simp add: AList.delete_eq)
  from no_excel_files_no_output_directories [OF h, of example_libraries
      "[(''notes.txt'', File ''hello''), (''docs'', Dir [(''readme.md'', File ''x'')])]"] f h d
  show ?thesis
    by (simp only: simp_thms)
qed

subsection \<open>What a run leaves outside its two output directories\<close>














subsection \<open>A second run\<close>






subsection \<open>Objects formatted with their address\<close>












end
